theory Spec2Isabelle
  imports Main "HOL-Library.Word"
begin

section \<open>Data model of console-client.c\<close>

type_synonym byte = "8 word"

text \<open>\<^verbatim>\<open>enum process_rc\<close>.\<close>

datatype process_rc = PROCESS_OK | PROCESS_ERR | PROCESS_EXIT

text \<open>
  \<^verbatim>\<open>struct termios\<close> belongs to the C library; only two things about it matter to the
  client: whether the attributes describe raw mode, and everything else, which the client
  copies around unchanged. \<^verbatim>\<open>cfmakeraw\<close> switches the first and keeps the second.
\<close>

record termios =
  t_raw :: bool
  t_other :: nat

definition cfmakeraw :: "termios \<Rightarrow> termios" where
  "cfmakeraw t = t\<lparr>t_raw := True\<rparr>"

text \<open>\<^verbatim>\<open>struct console_client\<close>, field by field.\<close>

record console_client =
  console_sd :: int
  fd_in :: int
  fd_out :: int
  is_tty :: bool
  orig_termios :: termios
  esc_str_pos :: int
  newline :: bool

text \<open>\<^verbatim>\<open>static const uint8_t esc_str[] = { '~', '.' }\<close> and the carriage return.\<close>

definition esc_str :: "byte list" where
  "esc_str = [0x7E, 0x2E]"

definition CR :: byte where
  "CR = 0x0D"

text \<open>
  Modelled from the spec: the macro \<^verbatim>\<open>ARRAY_SIZE\<close> comes from console-server.h, which is
  not part of the sources at hand; the spec calls its value here the pattern length (2),
  the number of elements of \<^verbatim>\<open>esc_str\<close>.
\<close>

definition ARRAY_SIZE_esc_str :: int where
  "ARRAY_SIZE_esc_str = int (length esc_str)"

section \<open>The operating system as seen by the client\<close>

text \<open>
  The observable behaviour of the client is the sequence of system calls with an effect:
  what it reads from, what it delivers to which descriptor, what it prints on stderr,
  the terminal attributes it sets and the descriptors it closes.
\<close>

datatype syscall =
    Read int
  | Write int "byte list"
  | Warn string
  | Stderr string
  | Tcsetattr int termios
  | Close int

text \<open>
  What one \<^verbatim>\<open>read(fd, buf, sizeof(buf))\<close> returns: \<open>-1\<close>, or the bytes placed in
  \<^verbatim>\<open>buf\<close> (their number is the return value; none is end of file).
\<close>

datatype rd = RdErr | RdBytes "byte list"

text \<open>
  The fate of one call of \<^verbatim>\<open>write_buf_to_fd\<close>: everything is delivered, or the call
  fails after delivering only the first \<open>k\<close> bytes.
\<close>

datatype wr_outcome = WrOk | WrFail nat

record world =
  trace :: "syscall list"
  wr_script :: "wr_outcome list"
  term_attrs :: termios

text \<open>
  Modelled from the spec: \<^verbatim>\<open>write_buf_to_fd\<close> is declared in console-server.h and defined
  outside the sources at hand. It transmits the first \<open>len\<close> bytes of \<open>buf\<close> to \<open>fd\<close>
  and returns 0, or fails with a negative value ("a write failure"). Whether a call fails
  is the environment's choice, read from \<open>wr_script\<close> (an exhausted script means
  success). A call with nothing to transmit succeeds without touching the descriptor.
\<close>

definition write_buf_to_fd :: "int \<Rightarrow> byte list \<Rightarrow> nat \<Rightarrow> world \<Rightarrow> int \<times> world" where
  "write_buf_to_fd fd buf len w =
     (if len = 0 then (0, w)
      else case wr_script w of
        [] \<Rightarrow> (0, w\<lparr>trace := trace w @ [Write fd (take len buf)]\<rparr>)
      | WrOk # rest \<Rightarrow>
          (0, w\<lparr>trace := trace w @ [Write fd (take len buf)], wr_script := rest\<rparr>)
      | WrFail k # rest \<Rightarrow>
          (-1, w\<lparr>trace := trace w @ [Write fd (take (min k len) buf)], wr_script := rest\<rparr>))"

text \<open>All bytes delivered to descriptor \<open>fd\<close> along a trace, in order.\<close>

fun written :: "int \<Rightarrow> syscall list \<Rightarrow> byte list" where
  "written fd [] = []"
| "written fd (Write fd' bs # tr) = (if fd' = fd then bs @ written fd tr else written fd tr)"
| "written fd (_ # tr) = written fd tr"

section \<open>process_tty\<close>

text \<open>
  Reading a C array outside its bounds, or writing more bytes than the buffer holds, is
  undefined behaviour; the model stops with a fault there.
\<close>

datatype fault = EscIndex int | BufLen int

definition esc_str_at :: "int \<Rightarrow> fault + byte" where
  "esc_str_at p =
     (if 0 \<le> p \<and> p < int (length esc_str) then Inr (esc_str ! nat p) else Inl (EscIndex p))"

text \<open>
  The body of the \<^verbatim>\<open>for\<close> loop at index \<open>i\<close>. The first component of the result is
  \<open>Some rc\<close> when the body executes \<^verbatim>\<open>return rc\<close> and \<open>None\<close> when the loop goes on
  (\<^verbatim>\<open>continue\<close>, or the end of the body).
\<close>

definition scan_byte ::
  "byte list \<Rightarrow> nat \<Rightarrow> console_client \<Rightarrow> world \<Rightarrow>
     fault + (process_rc option \<times> console_client \<times> world)" where
  "scan_byte buf i client w =
     (if buf ! i = CR then Inr (None, client\<lparr>newline := True\<rparr>, w)
      else if \<not> newline client then Inr (None, client, w)
      else case esc_str_at (esc_str_pos client) of
        Inl f \<Rightarrow> Inl f
      | Inr e \<Rightarrow>
          if buf ! i = e then
            (let client = client\<lparr>esc_str_pos := esc_str_pos client + 1\<rparr> in
             if esc_str_pos client = ARRAY_SIZE_esc_str then
               (let w = (if int i > esc_str_pos client
                         then snd (write_buf_to_fd (console_sd client) buf
                                     (nat (int i - esc_str_pos client)) w)
                         else w)
                in Inr (Some PROCESS_EXIT, client, w))
             else Inr (None, client, w))
          else
            (let w = (if esc_str_pos client \<noteq> 0
                      then snd (write_buf_to_fd (console_sd client) esc_str
                                  (nat (esc_str_pos client)) w)
                      else w)
             in Inr (None, client\<lparr>esc_str_pos := 0, newline := False\<rparr>, w)))"

text \<open>\<^verbatim>\<open>for (i = 0; i < len; i++)\<close>, entered at index \<open>i\<close>.\<close>

function scan_loop ::
  "byte list \<Rightarrow> nat \<Rightarrow> console_client \<Rightarrow> world \<Rightarrow>
     fault + (process_rc option \<times> console_client \<times> world)" where
  "scan_loop buf i client w =
     (if i < length buf then
        (case scan_byte buf i client w of
           Inl f \<Rightarrow> Inl f
         | Inr (Some rc, client', w') \<Rightarrow> Inr (Some rc, client', w')
         | Inr (None, client', w') \<Rightarrow> scan_loop buf (i + 1) client' w')
      else Inr (None, client, w))"
  by pat_completeness auto
termination
  by (relation "measure (\<lambda>(buf, i, client, w). length buf - i)") auto

declare scan_loop.simps [simp del]

text \<open>
  \<^verbatim>\<open>process_tty\<close>. Its first argument is what the \<^verbatim>\<open>read\<close> on \<^verbatim>\<open>fd_in\<close> returns in
  this call.
\<close>

definition process_tty ::
  "rd \<Rightarrow> console_client \<Rightarrow> world \<Rightarrow> fault + (process_rc \<times> console_client \<times> world)" where
  "process_tty r client w0 =
     (let w = w0\<lparr>trace := trace w0 @ [Read (fd_in client)]\<rparr> in
      case r of
        RdErr \<Rightarrow> Inr (PROCESS_ERR, client, w)
      | RdBytes buf \<Rightarrow>
          (if length buf = 0 then Inr (PROCESS_EXIT, client, w)
           else (case scan_loop buf 0 client w of
             Inl f \<Rightarrow> Inl f
           | Inr (Some rc, client', w') \<Rightarrow> Inr (rc, client', w')
           | Inr (None, client', w') \<Rightarrow>
               (let n = int (length buf) - esc_str_pos client' in
                if n < 0 \<or> n > int (length buf) then Inl (BufLen n)
                else (case write_buf_to_fd (console_sd client') buf (nat n) w' of
                  (rc, w'') \<Rightarrow>
                    if rc < 0 then Inr (PROCESS_ERR, client', w'')
                    else Inr (PROCESS_OK, client', w''))))))"

section \<open>process_console\<close>

text \<open>
  \<^verbatim>\<open>process_console\<close>. Its first argument is what the \<^verbatim>\<open>read\<close> on the service
  socket returns in this call. \<^verbatim>\<open>warn\<close> prints its message and the error text on stderr.
\<close>

definition process_console :: "rd \<Rightarrow> console_client \<Rightarrow> world \<Rightarrow> process_rc \<times> world" where
  "process_console r client w0 =
     (let w = w0\<lparr>trace := trace w0 @ [Read (console_sd client)]\<rparr> in
      case r of
        RdErr \<Rightarrow> (PROCESS_ERR, w\<lparr>trace := trace w @ [Warn ''Can't read from server'']\<rparr>)
      | RdBytes buf \<Rightarrow>
          (if length buf = 0
           then (PROCESS_EXIT, w\<lparr>trace := trace w @ [Stderr (''Connection closed'' @ [CHR 0x0A])]\<rparr>)
           else (case write_buf_to_fd (fd_out client) buf (length buf) w of
             (rc, w') \<Rightarrow> (if rc \<noteq> 0 then PROCESS_ERR else PROCESS_OK, w'))))"

section \<open>Set-up and tear-down\<close>

text \<open>
  \<^verbatim>\<open>tcsetattr\<close> with the return value the environment gives it: the call shows in the
  trace, and the terminal takes the new attributes when it succeeds.
\<close>

definition tcsetattr :: "int \<Rightarrow> termios \<Rightarrow> int \<Rightarrow> world \<Rightarrow> int \<times> world" where
  "tcsetattr fd t ret w =
     (ret, w\<lparr>trace := trace w @ [Tcsetattr fd t],
             term_attrs := (if ret = 0 then t else term_attrs w)\<rparr>)"

text \<open>
  What the environment answers to the calls of one run of the client, other than writes:
  the results of \<^verbatim>\<open>socket\<close>, \<^verbatim>\<open>connect\<close>, \<^verbatim>\<open>isatty\<close>, \<^verbatim>\<open>tcgetattr\<close> and the
  two \<^verbatim>\<open>tcsetattr\<close> calls (in \<^verbatim>\<open>client_tty_init\<close> and in \<^verbatim>\<open>client_fini\<close>), and one
  entry for every return of \<^verbatim>\<open>poll\<close>: its return value, whether \<^verbatim>\<open>revents\<close> is
  nonzero for each of the two descriptors, and what a \<^verbatim>\<open>read\<close> on each would return
  in that cycle.
\<close>

record poll_ev =
  poll_rc :: int
  revents0 :: bool
  revents1 :: bool
  tty_rd :: rd
  sock_rd :: rd

record env =
  socket_ret :: int
  connect_ret :: int
  isatty_ret :: bool
  tcgetattr_ret :: int
  tcsetattr_ret :: int
  tcsetattr_fini_ret :: int
  events :: "poll_ev list"

definition STDIN_FILENO :: int where "STDIN_FILENO = 0"
definition STDOUT_FILENO :: int where "STDOUT_FILENO = 1"
definition EXIT_SUCCESS :: int where "EXIT_SUCCESS = 0"
definition EXIT_FAILURE :: int where "EXIT_FAILURE = 1"

text \<open>\<^verbatim>\<open>memset(client, 0, sizeof(*client))\<close>.\<close>

definition zero_client :: console_client where
  "zero_client =
     \<lparr>console_sd = 0, fd_in = 0, fd_out = 0, is_tty = False,
      orig_termios = \<lparr>t_raw = False, t_other = 0\<rparr>, esc_str_pos = 0, newline = False\<rparr>"

definition client_tty_init :: "env \<Rightarrow> console_client \<Rightarrow> world \<Rightarrow> int \<times> console_client \<times> world" where
  "client_tty_init e client0 w =
     (let client = client0\<lparr>fd_in := STDIN_FILENO, fd_out := STDOUT_FILENO,
                           is_tty := isatty_ret e\<rparr> in
      if \<not> is_tty client then (0, client, w)
      else if tcgetattr_ret e \<noteq> 0
      then (-1, client, w\<lparr>trace := trace w @ [Warn ''Can't get terminal attributes for console'']\<rparr>)
      else
        (let termios = term_attrs w;
             client = client\<lparr>orig_termios := termios\<rparr>;
             termios = cfmakeraw termios
         in case tcsetattr (fd_in client) termios (tcsetattr_ret e) w of
           (rc, w') \<Rightarrow>
             if rc \<noteq> 0
             then (-1, client, w'\<lparr>trace := trace w' @ [Warn ''Can't set terminal attributes for console'']\<rparr>)
             else (0, client, w')))"

definition client_init :: "env \<Rightarrow> console_client \<Rightarrow> world \<Rightarrow> int \<times> console_client \<times> world" where
  "client_init e client0 w =
     (let client = client0\<lparr>console_sd := socket_ret e\<rparr> in
      if console_sd client = 0
      then (-1, client, w\<lparr>trace := trace w @ [Warn ''Can't open socket'']\<rparr>)
      else if connect_ret e \<noteq> 0
      then (-1, client, w\<lparr>trace := trace w @ [Warn ''Can't connect to console server'',
                                                Close (console_sd client)]\<rparr>)
      else (0, client, w))"

definition client_fini :: "env \<Rightarrow> console_client \<Rightarrow> world \<Rightarrow> world" where
  "client_fini e client w =
     (let w' = (if is_tty client
                then snd (tcsetattr (fd_in client) (orig_termios client) (tcsetattr_fini_ret e) w)
                else w)
      in w'\<lparr>trace := trace w' @ [Close (console_sd client)]\<rparr>)"

section \<open>main\<close>

text \<open>
  How the \<^verbatim>\<open>for (;;)\<close> loop of \<^verbatim>\<open>main\<close> ends: it leaves through a \<^verbatim>\<open>break\<close> with
  the values of \<^verbatim>\<open>rc\<close> and \<^verbatim>\<open>prc\<close>, or \<^verbatim>\<open>poll\<close> (called without a timeout) never
  returns again because the environment has no further event, or the scan has run into
  undefined behaviour.
\<close>

datatype loop_end =
    Broke int process_rc console_client world
  | Waiting console_client world
  | Crashed fault

fun main_loop :: "poll_ev list \<Rightarrow> process_rc \<Rightarrow> console_client \<Rightarrow> world \<Rightarrow> loop_end" where
  "main_loop [] prc client w = Waiting client w"
| "main_loop (ev # evs) prc client w =
     (if poll_rc ev < 0
      then Broke (poll_rc ev) prc client (w\<lparr>trace := trace w @ [Warn ''Poll failure'']\<rparr>)
      else (case (if revents0 ev then process_tty (tty_rd ev) client w
                  else Inr (prc, client, w)) of
        Inl f \<Rightarrow> Crashed f
      | Inr (prc1, client', w1) \<Rightarrow>
          (case (if prc1 = PROCESS_OK \<and> revents1 ev
                 then process_console (sock_rd ev) client' w1
                 else (prc1, w1)) of
             (prc2, w2) \<Rightarrow>
               if prc2 \<noteq> PROCESS_OK
               then Broke (if prc2 = PROCESS_ERR then -1 else 0) prc2 client' w2
               else main_loop evs prc2 client' w2)))"

text \<open>How \<^verbatim>\<open>main\<close> ends: with an exit status, or not at all, or undefined.\<close>

datatype main_end = Exit int world | Hangs world | Crash fault

definition main :: "env \<Rightarrow> world \<Rightarrow> main_end" where
  "main e w0 =
     (case client_init e zero_client w0 of
        (rc, client, w) \<Rightarrow>
          if rc \<noteq> 0 then Exit EXIT_FAILURE w
          else (case client_tty_init e client w of
            (rc, client, w) \<Rightarrow>
              if rc \<noteq> 0
              then Exit (if rc \<noteq> 0 then EXIT_FAILURE else EXIT_SUCCESS) (client_fini e client w)
              else (case main_loop (events e) PROCESS_OK client w of
                Broke rc prc client w \<Rightarrow>
                  Exit (if rc \<noteq> 0 then EXIT_FAILURE else EXIT_SUCCESS) (client_fini e client w)
              | Waiting client w \<Rightarrow> Hangs w
              | Crashed f \<Rightarrow> Crash f)))"


section \<open>Vocabulary of the properties\<close>

text \<open>
  The scanner states the client passes through: it starts with no match pending and not
  after a carriage return (the \<^verbatim>\<open>memset\<close> of \<^verbatim>\<open>main\<close>), and every execution of the loop
  body that does not return leads to the next one. These are the states at the call
  boundaries of \<^verbatim>\<open>process_tty\<close> and between two bytes of a chunk.
\<close>

inductive scanning :: "console_client \<Rightarrow> bool" where
  start: "esc_str_pos c = 0 \<Longrightarrow> \<not> newline c \<Longrightarrow> scanning c"
| step: "scanning c \<Longrightarrow> scan_byte buf i c w = Inr (None, c', w') \<Longrightarrow> scanning c'"

text \<open>The fields of the client that the relay never touches.\<close>

definition same_session :: "console_client \<Rightarrow> console_client \<Rightarrow> bool" where
  "same_session c c' \<longleftrightarrow>
     console_sd c' = console_sd c \<and> fd_in c' = fd_in c \<and> fd_out c' = fd_out c \<and>
     is_tty c' = is_tty c \<and> orig_termios c' = orig_termios c"

text \<open>An environment in which no call of \<^verbatim>\<open>write_buf_to_fd\<close> fails.\<close>

definition writes_succeed :: "world \<Rightarrow> bool" where
  "writes_succeed w \<longleftrightarrow> set (wr_script w) \<subseteq> {WrOk}"

text \<open>
  A wait cycle in which only the terminal is ready and its \<^verbatim>\<open>read\<close> returns \<open>chunk\<close>;
  a list of them feeds a byte stream to \<^verbatim>\<open>process_tty\<close> chunk by chunk.
\<close>

definition tty_ready :: "byte list \<Rightarrow> poll_ev" where
  "tty_ready chunk =
     \<lparr>poll_rc = 1, revents0 = True, revents1 = False, tty_rd = RdBytes chunk, sock_rd = RdErr\<rparr>"

text \<open>
  Concrete runs: the client as \<^verbatim>\<open>main\<close> has set it up on a pipe (not a tty) with the
  service socket on descriptor 3, a world in which nothing has happened yet and no write
  fails, the same client set up on a tty whose attributes were those of the quiet world,
  and environments for a whole run of \<^verbatim>\<open>main\<close>.
\<close>

definition session0 :: console_client where
  "session0 = zero_client\<lparr>console_sd := 3, fd_in := STDIN_FILENO, fd_out := STDOUT_FILENO\<rparr>"

definition quiet_world :: world where
  "quiet_world = \<lparr>trace = [], wr_script = [], term_attrs = \<lparr>t_raw = False, t_other = 0\<rparr>\<rparr>"

definition raw_session :: console_client where
  "raw_session = session0\<lparr>is_tty := True, orig_termios := \<lparr>t_raw = False, t_other = 0\<rparr>\<rparr>"

definition pipe_env :: "poll_ev list \<Rightarrow> env" where
  "pipe_env evs =
     \<lparr>socket_ret = 3, connect_ret = 0, isatty_ret = False, tcgetattr_ret = 0,
      tcsetattr_ret = 0, tcsetattr_fini_ret = 0, events = evs\<rparr>"

definition tty_env :: "poll_ev list \<Rightarrow> env" where
  "tty_env evs =
     \<lparr>socket_ret = 3, connect_ret = 0, isatty_ret = True, tcgetattr_ret = 0,
      tcsetattr_ret = 0, tcsetattr_fini_ret = 0, events = evs\<rparr>"

definition poll_fails :: poll_ev where
  "poll_fails =
     \<lparr>poll_rc = - 1, revents0 = False, revents1 = False, tty_rd = RdErr, sock_rd = RdErr\<rparr>"

definition both_ready :: "rd \<Rightarrow> rd \<Rightarrow> poll_ev" where
  "both_ready t s = \<lparr>poll_rc = 2, revents0 = True, revents1 = True, tty_rd = t, sock_rd = s\<rparr>"

definition sock_ready :: "rd \<Rightarrow> poll_ev" where
  "sock_ready s = \<lparr>poll_rc = 1, revents0 = False, revents1 = True, tty_rd = RdErr, sock_rd = s\<rparr>"

section \<open>Evaluation\<close>

lemmas run_defs =
  process_tty_def process_console_def scan_loop.simps scan_byte_def esc_str_at_def esc_str_def
  CR_def ARRAY_SIZE_esc_str_def write_buf_to_fd_def session0_def quiet_world_def
  zero_client_def tty_ready_def STDIN_FILENO_def STDOUT_FILENO_def

lemmas main_defs =
  main_def client_init_def client_tty_init_def client_fini_def tcsetattr_def cfmakeraw_def
  pipe_env_def tty_env_def poll_fails_def both_ready_def sock_ready_def
  EXIT_SUCCESS_def EXIT_FAILURE_def Let_def

section \<open>The detach pattern inside one chunk\<close>

text \<open>
  C1. Claim: a chunk in which the scan completes the detach pattern makes \<^verbatim>\<open>process_tty\<close>
  return \<^verbatim>\<open>PROCESS_EXIT\<close> and forward exactly the bytes that precede the match; for the
  chunk \<^verbatim>\<open>\r ~ .\<close> from the initial state the carriage return is forwarded. What the code
  does on that chunk: it returns \<^verbatim>\<open>PROCESS_EXIT\<close> and the only system call is the read;
  nothing reaches the service socket, the carriage return is lost. At the match \<open>i = 2\<close>
  and \<^verbatim>\<open>esc_str_pos\<close> is 2, so the guard \<^verbatim>\<open>i > client->esc_str_pos\<close> is false, and
  where it is true the length \<^verbatim>\<open>i - client->esc_str_pos\<close> is one short of the bytes
  before the \<^verbatim>\<open>~\<close>: of \<^verbatim>\<open>h i \r ~ .\<close> only \<^verbatim>\<open>h i\<close> is forwarded.
\<close>

theorem C1_detach_in_one_chunk_drops_cr:
  "process_tty (RdBytes [0x0D, 0x7E, 0x2E]) session0 quiet_world =
     Inr (PROCESS_EXIT, session0\<lparr>esc_str_pos := 2, newline := True\<rparr>,
          quiet_world\<lparr>trace := [Read 0]\<rparr>)
   \<and> written 3 [Read 0] = []
   \<and> process_tty (RdBytes [0x68, 0x69, 0x0D, 0x7E, 0x2E]) session0 quiet_world =
     Inr (PROCESS_EXIT, session0\<lparr>esc_str_pos := 2, newline := True\<rparr>,
          quiet_world\<lparr>trace := [Read 0, Write 3 [0x68, 0x69]]\<rparr>)"
  by (simp add: run_defs)

text \<open>
  C2. Claim: the chunk \<^verbatim>\<open>\r ~ x\<close> from the initial state does not detach, the service
  receives exactly \<^verbatim>\<open>\r ~ x\<close>, and the scanner is back in its initial state, so that a
  following \<^verbatim>\<open>\r ~ .\<close> detaches. What the code does: it returns \<^verbatim>\<open>PROCESS_OK\<close> and
  resets the scanner, and the following chunk detaches, but the service receives
  \<^verbatim>\<open>~ \r ~ x\<close>: the false-start flush writes the \<^verbatim>\<open>~\<close> from \<^verbatim>\<open>esc_str\<close> at once, and
  the write after the loop sends the whole buffer, which holds that \<^verbatim>\<open>~\<close> too.
\<close>

theorem C2_false_start_in_one_chunk_duplicates_tilde:
  "process_tty (RdBytes [0x0D, 0x7E, 0x78]) session0 quiet_world =
     Inr (PROCESS_OK, session0,
          quiet_world\<lparr>trace := [Read 0, Write 3 [0x7E], Write 3 [0x0D, 0x7E, 0x78]]\<rparr>)
   \<and> written 3 [Read 0, Write 3 [0x7E], Write 3 [0x0D, 0x7E, 0x78]] = [0x7E, 0x0D, 0x7E, 0x78]
   \<and> main_loop [tty_ready [0x0D, 0x7E, 0x78], tty_ready [0x0D, 0x7E, 0x2E]]
        PROCESS_OK session0 quiet_world =
     Broke 0 PROCESS_EXIT (session0\<lparr>esc_str_pos := 2, newline := True\<rparr>)
       (quiet_world\<lparr>trace := [Read 0, Write 3 [0x7E], Write 3 [0x0D, 0x7E, 0x78], Read 0]\<rparr>)"
  by (simp add: run_defs)

section \<open>The detach pattern across chunk boundaries\<close>

text \<open>
  C3. Claim: \<^verbatim>\<open>\r ~ .\<close> split as \<^verbatim>\<open>\r ~\<close> | \<^verbatim>\<open>.\<close> or as \<^verbatim>\<open>\r\<close> | \<^verbatim>\<open>~\<close> | \<^verbatim>\<open>.\<close> carries
  the partial match across the calls, detaches on the last chunk, never forwards the
  \<^verbatim>\<open>~\<close>, and forwards in total what the single chunk forwards. What the code does: after
  \<^verbatim>\<open>\r ~\<close> it holds \<^verbatim>\<open>esc_str_pos = 1\<close> and \<^verbatim>\<open>newline = true\<close>, both splits detach on the
  last chunk and forward the carriage return alone, but the single chunk forwards
  nothing, so the totals differ.
\<close>

theorem C3_split_forwards_cr_single_chunk_does_not:
  "process_tty (RdBytes [0x0D, 0x7E]) session0 quiet_world =
     Inr (PROCESS_OK, session0\<lparr>esc_str_pos := 1, newline := True\<rparr>,
          quiet_world\<lparr>trace := [Read 0, Write 3 [0x0D]]\<rparr>)
   \<and> main_loop [tty_ready [0x0D, 0x7E], tty_ready [0x2E]] PROCESS_OK session0 quiet_world =
     Broke 0 PROCESS_EXIT (session0\<lparr>esc_str_pos := 2, newline := True\<rparr>)
       (quiet_world\<lparr>trace := [Read 0, Write 3 [0x0D], Read 0]\<rparr>)
   \<and> main_loop [tty_ready [0x0D], tty_ready [0x7E], tty_ready [0x2E]]
        PROCESS_OK session0 quiet_world =
     Broke 0 PROCESS_EXIT (session0\<lparr>esc_str_pos := 2, newline := True\<rparr>)
       (quiet_world\<lparr>trace := [Read 0, Write 3 [0x0D], Read 0, Read 0]\<rparr>)
   \<and> main_loop [tty_ready [0x0D, 0x7E, 0x2E]] PROCESS_OK session0 quiet_world =
     Broke 0 PROCESS_EXIT (session0\<lparr>esc_str_pos := 2, newline := True\<rparr>)
       (quiet_world\<lparr>trace := [Read 0]\<rparr>)
   \<and> written 3 [Read 0, Write 3 [0x0D], Read 0] = [0x0D]
   \<and> written 3 [Read 0, Write 3 [0x0D], Read 0, Read 0] = [0x0D]
   \<and> written 3 [Read 0] = []"
  by (simp add: run_defs)

section \<open>Streams without a carriage return\<close>

lemma written_append: "written fd (xs @ ys) = written fd xs @ written fd ys"
  by (induction fd xs rule: written.induct) auto

lemma write_buf_to_fd_ok:
  assumes "writes_succeed w"
  shows "\<exists>w'. write_buf_to_fd fd buf len w = (0, w') \<and> writes_succeed w' \<and>
           written fd (trace w') = written fd (trace w) @ take len buf"
proof (cases "wr_script w")
  case Nil
  with assms show ?thesis
    by (simp add: write_buf_to_fd_def writes_succeed_def written_append)
next
  case (Cons a rest)
  with assms have "a = WrOk" and "set rest \<subseteq> {WrOk}" by (auto simp: writes_succeed_def)
  with Cons assms show ?thesis
    by (simp add: write_buf_to_fd_def writes_succeed_def written_append)
qed

lemma scan_loop_no_cr:
  "\<not> newline c \<Longrightarrow> CR \<notin> set buf \<Longrightarrow> scan_loop buf i c w = Inr (None, c, w)"
proof (induction "length buf - i" arbitrary: i)
  case 0
  then show ?case by (simp add: scan_loop.simps)
next
  case (Suc n)
  then have lt: "i < length buf" and n: "n = length buf - (i + 1)" by simp_all
  from lt Suc.prems have "buf ! i \<noteq> CR" by (metis nth_mem)
  with Suc.prems have "scan_byte buf i c w = Inr (None, c, w)" by (simp add: scan_byte_def)
  with Suc.hyps(1) [OF n Suc.prems] lt show ?case
    by (subst scan_loop.simps) simp
qed

lemma process_tty_no_cr:
  assumes "esc_str_pos c = 0" "\<not> newline c" "buf \<noteq> []" "CR \<notin> set buf" "writes_succeed w"
  shows "\<exists>w'. process_tty (RdBytes buf) c w = Inr (PROCESS_OK, c, w') \<and> writes_succeed w' \<and>
           written (console_sd c) (trace w') = written (console_sd c) (trace w) @ buf"
proof -
  let ?w = "w\<lparr>trace := trace w @ [Read (fd_in c)]\<rparr>"
  have ws: "writes_succeed ?w" using assms(5) by (simp add: writes_succeed_def)
  from write_buf_to_fd_ok [OF ws, of "console_sd c" buf "length buf"]
  obtain w' where w: "write_buf_to_fd (console_sd c) buf (length buf) ?w = (0, w')"
    and ws': "writes_succeed w'"
    and wr: "written (console_sd c) (trace w') = written (console_sd c) (trace ?w) @ buf"
    by auto
  from assms scan_loop_no_cr [OF assms(2) assms(4), of 0 ?w] w
  have "process_tty (RdBytes buf) c w = Inr (PROCESS_OK, c, w')"
    by (simp add: process_tty_def)
  with ws' wr show ?thesis by (simp add: written_append)
qed

lemma main_loop_no_cr:
  assumes "esc_str_pos c = 0" "\<not> newline c"
  shows "\<forall>chunk \<in> set chunks. chunk \<noteq> [] \<and> CR \<notin> set chunk \<Longrightarrow> writes_succeed w \<Longrightarrow>
         \<exists>w'. main_loop (map tty_ready chunks) PROCESS_OK c w = Waiting c w' \<and>
           written (console_sd c) (trace w') = written (console_sd c) (trace w) @ concat chunks"
proof (induction chunks arbitrary: w)
  case Nil
  then show ?case by simp
next
  case (Cons chunk chunks)
  then have "chunk \<noteq> []" "CR \<notin> set chunk" by simp_all
  from process_tty_no_cr [OF assms this Cons.prems(2)]
  obtain w1 where p: "process_tty (RdBytes chunk) c w = Inr (PROCESS_OK, c, w1)"
    and ws: "writes_succeed w1"
    and wr: "written (console_sd c) (trace w1) = written (console_sd c) (trace w) @ chunk"
    by blast
  from Cons.prems(1) have "\<forall>chunk \<in> set chunks. chunk \<noteq> [] \<and> CR \<notin> set chunk" by simp
  from Cons.IH [OF this ws]
  obtain w' where m: "main_loop (map tty_ready chunks) PROCESS_OK c w1 = Waiting c w'"
    and wr': "written (console_sd c) (trace w') = written (console_sd c) (trace w1) @ concat chunks"
    by blast
  from p m have "main_loop (map tty_ready (chunk # chunks)) PROCESS_OK c w = Waiting c w'"
    by (simp add: tty_ready_def)
  with wr wr' show ?case by simp
qed

text \<open>
  C4. A byte stream without a carriage return, cut into non-empty chunks in any way and
  fed to \<^verbatim>\<open>process_tty\<close> from the initial scanner state while the writes succeed: every
  call returns \<^verbatim>\<open>PROCESS_OK\<close> (the loop is still waiting for more after the last chunk,
  no detach and no exit), the scanner state is unchanged, and the bytes delivered to the
  service socket are those delivered before followed by the stream itself.
\<close>

theorem C4_stream_without_cr_is_forwarded_unchanged:
  assumes "esc_str_pos c = 0" and "\<not> newline c"
    and "\<forall>chunk \<in> set chunks. chunk \<noteq> [] \<and> CR \<notin> set chunk"
    and "writes_succeed w"
  shows "\<exists>w'. main_loop (map tty_ready chunks) PROCESS_OK c w = Waiting c w' \<and>
           written (console_sd c) (trace w') = written (console_sd c) (trace w) @ concat chunks"
  using main_loop_no_cr [OF assms] .

theorem C4_witness:
  "\<exists>w'. main_loop [tty_ready [0x6C, 0x73], tty_ready [0x7E, 0x2E, 0x0A], tty_ready [0x78]]
            PROCESS_OK session0 quiet_world = Waiting session0 w' \<and>
         written 3 (trace w') = [0x6C, 0x73, 0x7E, 0x2E, 0x0A, 0x78]"
  using C4_stream_without_cr_is_forwarded_unchanged
          [of session0 "[[0x6C, 0x73], [0x7E, 0x2E, 0x0A], [0x78]]" quiet_world]
  by (simp add: session0_def zero_client_def quiet_world_def writes_succeed_def CR_def)

section \<open>Invariants of the scanner state\<close>

lemma scan_byte_cases:
  assumes "esc_str_pos c = 0 \<or> esc_str_pos c = 1"
  shows "\<exists>r c' w'. scan_byte buf i c w = Inr (r, c', w') \<and>
           ((r = None \<and> (esc_str_pos c' = 0 \<or> esc_str_pos c' = 1)) \<or>
            (r = Some PROCESS_EXIT \<and> esc_str_pos c' = 2 \<and> newline c')) \<and>
           (0 < esc_str_pos c \<longrightarrow> newline c \<longrightarrow> 0 < esc_str_pos c' \<longrightarrow> newline c') \<and>
           (esc_str_pos c = 0 \<longrightarrow> 0 < esc_str_pos c' \<longrightarrow> newline c') \<and>
           console_sd c' = console_sd c \<and> fd_in c' = fd_in c \<and> fd_out c' = fd_out c \<and>
           is_tty c' = is_tty c \<and> orig_termios c' = orig_termios c"
  using assms
  by (auto simp: scan_byte_def esc_str_at_def esc_str_def ARRAY_SIZE_esc_str_def Let_def)

lemma scanning_inv:
  "scanning c \<Longrightarrow> (esc_str_pos c = 0 \<or> esc_str_pos c = 1) \<and> (0 < esc_str_pos c \<longrightarrow> newline c)"
proof (induction rule: scanning.induct)
  case (start c)
  then show ?case by simp
next
  case (step c buf i w c' w')
  from scan_byte_cases [of c buf i w] step show ?case by auto
qed

lemma scan_byte_scanning:
  assumes "scanning c"
  shows "\<exists>r c' w'. scan_byte buf i c w = Inr (r, c', w') \<and>
           ((r = None \<and> scanning c') \<or>
            (r = Some PROCESS_EXIT \<and> esc_str_pos c' = 2 \<and> newline c')) \<and>
           same_session c c'"
proof -
  from scanning_inv [OF assms] have "esc_str_pos c = 0 \<or> esc_str_pos c = 1" by simp
  from scan_byte_cases [OF this, of buf i w]
  obtain r c' w' where s: "scan_byte buf i c w = Inr (r, c', w')"
    and r: "r = None \<or> (r = Some PROCESS_EXIT \<and> esc_str_pos c' = 2 \<and> newline c')"
    and f: "same_session c c'"
    unfolding same_session_def by blast
  show ?thesis
  proof (cases r)
    case None
    with s assms have "scanning c'" by (auto intro: scanning.step)
    with s None f show ?thesis by simp
  next
    case (Some rc)
    with s r f show ?thesis by simp
  qed
qed

lemma scan_loop_scanning:
  "scanning c \<Longrightarrow>
   \<exists>r c' w'. scan_loop buf i c w = Inr (r, c', w') \<and>
     ((r = None \<and> scanning c') \<or>
      (r = Some PROCESS_EXIT \<and> esc_str_pos c' = 2 \<and> newline c')) \<and>
     same_session c c'"
proof (induction "length buf - i" arbitrary: i c w)
  case 0
  then show ?case by (simp add: scan_loop.simps same_session_def)
next
  case (Suc n)
  then have lt: "i < length buf" and n: "n = length buf - (i + 1)" by simp_all
  from scan_byte_scanning [OF Suc.prems, of buf i w]
  obtain r c1 w1 where s: "scan_byte buf i c w = Inr (r, c1, w1)"
    and r: "(r = None \<and> scanning c1) \<or> (r = Some PROCESS_EXIT \<and> esc_str_pos c1 = 2 \<and> newline c1)"
    and f: "same_session c c1" by blast
  show ?case
  proof (cases r)
    case None
    with r have "scanning c1" by simp
    from Suc.hyps(1) [OF n this, of w1] None s lt f show ?thesis
      by (subst scan_loop.simps) (auto simp: same_session_def)
  next
    case (Some rc)
    with r s lt f show ?thesis
      by (subst scan_loop.simps) simp
  qed
qed

lemma process_tty_scanning:
  assumes "scanning c"
  shows "\<exists>rc c' w'. process_tty r c w = Inr (rc, c', w') \<and>
           (scanning c' \<or> (rc = PROCESS_EXIT \<and> esc_str_pos c' = 2 \<and> newline c')) \<and>
           same_session c c'"
proof (cases r)
  case RdErr
  with assms show ?thesis by (simp add: process_tty_def same_session_def)
next
  case (RdBytes buf)
  show ?thesis
  proof (cases "buf = []")
    case True
    with RdBytes assms show ?thesis by (simp add: process_tty_def same_session_def)
  next
    case False
    let ?w = "w\<lparr>trace := trace w @ [Read (fd_in c)]\<rparr>"
    from scan_loop_scanning [OF assms, of buf 0 ?w]
    obtain r1 c1 w1 where s: "scan_loop buf 0 c ?w = Inr (r1, c1, w1)"
      and r: "(r1 = None \<and> scanning c1) \<or> (r1 = Some PROCESS_EXIT \<and> esc_str_pos c1 = 2 \<and> newline c1)"
      and f: "same_session c c1" by blast
    show ?thesis
    proof (cases r1)
      case None
      with r have sc: "scanning c1" by simp
      from scanning_inv [OF sc] have p: "esc_str_pos c1 = 0 \<or> esc_str_pos c1 = 1" by simp
      from False have "1 \<le> int (length buf)" by (cases buf) simp_all
      with p have n: "\<not> (int (length buf) - esc_str_pos c1 < 0 \<or>
                         int (length buf) - esc_str_pos c1 > int (length buf))" by auto
      from RdBytes False s None sc f n show ?thesis
        by (auto simp: process_tty_def Let_def split: prod.splits)
    next
      case (Some rc)
      with RdBytes False s r f show ?thesis
        by (auto simp: process_tty_def)
    qed
  qed
qed

lemma main_loop_scanning:
  "scanning c \<Longrightarrow>
   (\<exists>c' w'. main_loop evs prc c w = Waiting c' w' \<and> scanning c' \<and> same_session c c') \<or>
   (\<exists>rc prc' c' w'. main_loop evs prc c w = Broke rc prc' c' w' \<and>
      (scanning c' \<or> (prc' = PROCESS_EXIT \<and> esc_str_pos c' = 2 \<and> newline c')) \<and>
      same_session c c')"
proof (induction evs arbitrary: prc c w)
  case Nil
  then show ?case by (simp add: same_session_def)
next
  case (Cons ev evs)
  show ?case
  proof (cases "poll_rc ev < 0")
    case True
    with Cons.prems show ?thesis by (simp add: same_session_def)
  next
    case False
    have "\<exists>prc1 c1 w1.
            (if revents0 ev then process_tty (tty_rd ev) c w else Inr (prc, c, w)) = Inr (prc1, c1, w1) \<and>
            (scanning c1 \<or> (prc1 = PROCESS_EXIT \<and> esc_str_pos c1 = 2 \<and> newline c1)) \<and>
            same_session c c1"
      using process_tty_scanning [OF Cons.prems, of "tty_rd ev" w] Cons.prems
      by (auto simp: same_session_def)
    then obtain prc1 c1 w1 where
      t: "(if revents0 ev then process_tty (tty_rd ev) c w else Inr (prc, c, w)) = Inr (prc1, c1, w1)"
      and s: "scanning c1 \<or> (prc1 = PROCESS_EXIT \<and> esc_str_pos c1 = 2 \<and> newline c1)"
      and f: "same_session c c1" by blast
    obtain prc2 w2 where
      k: "(if prc1 = PROCESS_OK \<and> revents1 ev then process_console (sock_rd ev) c1 w1
           else (prc1, w1)) = (prc2, w2)" by (cases "(if prc1 = PROCESS_OK \<and> revents1 ev then process_console (sock_rd ev) c1 w1
           else (prc1, w1))") 
    show ?thesis
    proof (cases "prc2 = PROCESS_OK")
      case True
      with k have "prc1 = PROCESS_OK" by (auto simp: process_console_def Let_def split: if_splits rd.splits prod.splits)
      with s have "scanning c1" by auto
      from Cons.IH [OF this, of prc2 w2] False t k True f show ?thesis
        by (auto simp: same_session_def)
    next
      case ne: False
      have "prc2 = PROCESS_EXIT \<and> prc1 \<noteq> PROCESS_EXIT \<longrightarrow> scanning c1" using s by auto
      moreover have "prc1 = PROCESS_EXIT \<longrightarrow> prc2 = PROCESS_EXIT" using k by auto
      ultimately show ?thesis using False t k ne f s by auto
    qed
  qed
qed

lemma scanning_after_cr_tilde: "scanning (session0\<lparr>esc_str_pos := 1, newline := True\<rparr>)"
proof -
  have 0: "scanning session0"
    by (rule scanning.start) (simp_all add: session0_def zero_client_def)
  have "scan_byte [0x0D] 0 session0 quiet_world =
          Inr (None, session0\<lparr>newline := True\<rparr>, quiet_world)"
    by (simp add: scan_byte_def CR_def)
  from scanning.step [OF 0 this] have 1: "scanning (session0\<lparr>newline := True\<rparr>)" .
  have "scan_byte [0x7E] 0 (session0\<lparr>newline := True\<rparr>) quiet_world =
          Inr (None, session0\<lparr>esc_str_pos := 1, newline := True\<rparr>, quiet_world)"
    by (simp add: run_defs)
  from scanning.step [OF 1 this] show ?thesis .
qed


text \<open>
  C8. From every state the scanner passes through, \<^verbatim>\<open>esc_str_pos\<close> is 0 or 1, hence a
  valid index into the two-byte pattern; one more byte never faults and leaves it in
  \<open>[0, 2]\<close>, and it is 2 exactly when that byte made the loop body return
  \<^verbatim>\<open>PROCESS_EXIT\<close>. The same holds for the rest of the chunk (\<open>scan_loop\<close>), for a whole
  call of \<^verbatim>\<open>process_tty\<close> (which hands a scanning state to the next call whenever it
  returns \<^verbatim>\<open>PROCESS_OK\<close>) and for any sequence of wait cycles of the relay loop: the loop
  either still waits in a scanning state or has been left, and \<^verbatim>\<open>esc_str_pos\<close> is 2 only
  when it was left with \<^verbatim>\<open>PROCESS_EXIT\<close>; the scan never reads outside \<^verbatim>\<open>esc_str\<close>.
\<close>

theorem C8_esc_str_pos_stays_in_range:
  assumes "scanning c"
  shows "0 \<le> esc_str_pos c \<and> esc_str_pos c < ARRAY_SIZE_esc_str
    \<and> (\<exists>e. esc_str_at (esc_str_pos c) = Inr e)
    \<and> (\<exists>r c' w'. scan_byte buf i c w = Inr (r, c', w') \<and>
          0 \<le> esc_str_pos c' \<and> esc_str_pos c' \<le> ARRAY_SIZE_esc_str \<and>
          (esc_str_pos c' = ARRAY_SIZE_esc_str \<longleftrightarrow> r = Some PROCESS_EXIT) \<and>
          (r = None \<longleftrightarrow> scanning c'))
    \<and> (\<exists>r c' w'. scan_loop buf i c w = Inr (r, c', w') \<and>
          0 \<le> esc_str_pos c' \<and> esc_str_pos c' \<le> ARRAY_SIZE_esc_str \<and>
          (esc_str_pos c' = ARRAY_SIZE_esc_str \<longleftrightarrow> r = Some PROCESS_EXIT))
    \<and> (\<exists>rc c' w'. process_tty rd c w = Inr (rc, c', w') \<and>
          0 \<le> esc_str_pos c' \<and> esc_str_pos c' \<le> ARRAY_SIZE_esc_str \<and>
          (esc_str_pos c' = ARRAY_SIZE_esc_str \<longrightarrow> rc = PROCESS_EXIT) \<and>
          (rc = PROCESS_OK \<longrightarrow> scanning c'))
    \<and> ((\<exists>c' w'. main_loop evs prc c w = Waiting c' w' \<and> scanning c') \<or>
        (\<exists>rc prc' c' w'. main_loop evs prc c w = Broke rc prc' c' w' \<and>
           0 \<le> esc_str_pos c' \<and> esc_str_pos c' \<le> ARRAY_SIZE_esc_str \<and>
           (esc_str_pos c' = ARRAY_SIZE_esc_str \<longrightarrow> prc' = PROCESS_EXIT)))"
proof -
  have two: "ARRAY_SIZE_esc_str = 2" by (simp add: ARRAY_SIZE_esc_str_def esc_str_def)
  have inv: "\<And>c. scanning c \<Longrightarrow> 0 \<le> esc_str_pos c \<and> esc_str_pos c < 2"
    using scanning_inv by fastforce
  have a: "0 \<le> esc_str_pos c \<and> esc_str_pos c < ARRAY_SIZE_esc_str"
    using inv [OF assms] two by simp
  then have b: "\<exists>e. esc_str_at (esc_str_pos c) = Inr e"
    by (simp add: esc_str_at_def ARRAY_SIZE_esc_str_def)
  have c: "\<exists>r c' w'. scan_byte buf i c w = Inr (r, c', w') \<and>
          0 \<le> esc_str_pos c' \<and> esc_str_pos c' \<le> ARRAY_SIZE_esc_str \<and>
          (esc_str_pos c' = ARRAY_SIZE_esc_str \<longleftrightarrow> r = Some PROCESS_EXIT) \<and>
          (r = None \<longleftrightarrow> scanning c')"
    using scan_byte_scanning [OF assms, of buf i w] inv two by fastforce
  have d: "\<exists>r c' w'. scan_loop buf i c w = Inr (r, c', w') \<and>
          0 \<le> esc_str_pos c' \<and> esc_str_pos c' \<le> ARRAY_SIZE_esc_str \<and>
          (esc_str_pos c' = ARRAY_SIZE_esc_str \<longleftrightarrow> r = Some PROCESS_EXIT)"
    using scan_loop_scanning [OF assms, of buf i w] inv two by fastforce
  have e: "\<exists>rc c' w'. process_tty rd c w = Inr (rc, c', w') \<and>
          0 \<le> esc_str_pos c' \<and> esc_str_pos c' \<le> ARRAY_SIZE_esc_str \<and>
          (esc_str_pos c' = ARRAY_SIZE_esc_str \<longrightarrow> rc = PROCESS_EXIT) \<and>
          (rc = PROCESS_OK \<longrightarrow> scanning c')"
    using process_tty_scanning [OF assms, of rd w] inv two by fastforce
  have f: "(\<exists>c' w'. main_loop evs prc c w = Waiting c' w' \<and> scanning c') \<or>
        (\<exists>rc prc' c' w'. main_loop evs prc c w = Broke rc prc' c' w' \<and>
           0 \<le> esc_str_pos c' \<and> esc_str_pos c' \<le> ARRAY_SIZE_esc_str \<and>
           (esc_str_pos c' = ARRAY_SIZE_esc_str \<longrightarrow> prc' = PROCESS_EXIT))"
    using main_loop_scanning [OF assms, of evs prc w] inv two by fastforce
  from a b c d e f show ?thesis by blast
qed

theorem C8_witness:
  "scan_byte [0x2E] 0 (session0\<lparr>esc_str_pos := 1, newline := True\<rparr>) quiet_world =
     Inr (Some PROCESS_EXIT, session0\<lparr>esc_str_pos := 2, newline := True\<rparr>, quiet_world)
   \<and> esc_str_at 1 = Inr 0x2E"
  using C8_esc_str_pos_stays_in_range [OF scanning_after_cr_tilde, of "[0x2E]" 0 quiet_world]
  by (simp add: run_defs)

text \<open>
  C10. In every state the scanner passes through, a pending match (\<^verbatim>\<open>esc_str_pos > 0\<close>)
  implies \<^verbatim>\<open>newline\<close>; so it is after one more byte, whether the loop body goes on or
  returns, at the return of \<^verbatim>\<open>process_tty\<close> whatever it returns, and after any sequence
  of wait cycles of the relay loop.
\<close>

theorem C10_pending_match_implies_newline:
  assumes "scanning c"
  shows "(0 < esc_str_pos c \<longrightarrow> newline c)
    \<and> (\<forall>r c' w'. scan_byte buf i c w = Inr (r, c', w') \<longrightarrow> 0 < esc_str_pos c' \<longrightarrow> newline c')
    \<and> (\<forall>rc c' w'. process_tty rd c w = Inr (rc, c', w') \<longrightarrow> 0 < esc_str_pos c' \<longrightarrow> newline c')
    \<and> (\<forall>c' w'. main_loop evs prc c w = Waiting c' w' \<longrightarrow> 0 < esc_str_pos c' \<longrightarrow> newline c')
    \<and> (\<forall>rc prc' c' w'. main_loop evs prc c w = Broke rc prc' c' w' \<longrightarrow>
          0 < esc_str_pos c' \<longrightarrow> newline c')"
proof -
  have a: "0 < esc_str_pos c \<longrightarrow> newline c"
    using scanning_inv [OF assms] by simp
  have b: "\<forall>r c' w'. scan_byte buf i c w = Inr (r, c', w') \<longrightarrow> 0 < esc_str_pos c' \<longrightarrow> newline c'"
    using scan_byte_scanning [OF assms, of buf i w] scanning_inv by fastforce
  have c: "\<forall>rc c' w'. process_tty rd c w = Inr (rc, c', w') \<longrightarrow> 0 < esc_str_pos c' \<longrightarrow> newline c'"
    using process_tty_scanning [OF assms, of rd w] scanning_inv by fastforce
  have d: "\<forall>c' w'. main_loop evs prc c w = Waiting c' w' \<longrightarrow> 0 < esc_str_pos c' \<longrightarrow> newline c'"
    using main_loop_scanning [OF assms, of evs prc w] scanning_inv by fastforce
  have e: "\<forall>rc prc' c' w'. main_loop evs prc c w = Broke rc prc' c' w' \<longrightarrow>
          0 < esc_str_pos c' \<longrightarrow> newline c'"
    using main_loop_scanning [OF assms, of evs prc w] scanning_inv by fastforce
  from a b c d e show ?thesis by blast
qed

theorem C10_witness:
  "0 < esc_str_pos (session0\<lparr>esc_str_pos := 1, newline := True\<rparr>)
   \<and> newline (session0\<lparr>esc_str_pos := 1, newline := True\<rparr>)"
  using C10_pending_match_implies_newline [OF scanning_after_cr_tilde]
  by simp


section \<open>The relay loop\<close>

lemma write_buf_to_fd_trace:
  "write_buf_to_fd fd buf len w = (rc, w') \<Longrightarrow> \<exists>tr. trace w' = trace w @ tr"
  by (auto simp: write_buf_to_fd_def split: if_splits list.splits wr_outcome.splits)

lemma scan_byte_trace:
  assumes "scan_byte buf i c w = Inr (r, c', w')"
  shows "\<exists>tr. trace w' = trace w @ tr"
proof -
  have s: "\<And>fd b n. \<exists>tr. trace (snd (write_buf_to_fd fd b n w)) = trace w @ tr"
    using write_buf_to_fd_trace by (metis prod.collapse)
  from assms show ?thesis
    using s [of "console_sd c" buf "nat (int i - (esc_str_pos c + 1))"]
          s [of "console_sd c" esc_str "nat (esc_str_pos c)"]
    by (auto simp: scan_byte_def Let_def split: if_splits sum.splits)
qed

lemma scan_loop_trace:
  "scan_loop buf i c w = Inr (r, c', w') \<Longrightarrow> \<exists>tr. trace w' = trace w @ tr"
proof (induction "length buf - i" arbitrary: i c w)
  case 0
  then show ?case by (simp add: scan_loop.simps)
next
  case (Suc n)
  then have lt: "i < length buf" and n: "n = length buf - (i + 1)" by simp_all
  show ?case
  proof (cases "scan_byte buf i c w")
    case (Inl f)
    with Suc.prems lt show ?thesis by (subst (asm) scan_loop.simps) simp
  next
    case (Inr x)
    obtain r1 c1 w1 where x: "x = (r1, c1, w1)" by (cases x) auto
    from scan_byte_trace Inr x obtain tr1 where t1: "trace w1 = trace w @ tr1" by blast
    show ?thesis
    proof (cases r1)
      case None
      with Suc.prems lt Inr x have "scan_loop buf (i + 1) c1 w1 = Inr (r, c', w')"
        by (subst (asm) scan_loop.simps) simp
      from Suc.hyps(1) [OF n this] t1 show ?thesis by auto
    next
      case (Some rc)
      with Suc.prems lt Inr x have "w' = w1"
        by (subst (asm) scan_loop.simps) simp
      with t1 show ?thesis by auto
    qed
  qed
qed

lemma process_tty_trace:
  assumes "process_tty r c w = Inr (rc, c', w')"
  shows "\<exists>tr. trace w' = trace w @ Read (fd_in c) # tr"
proof (cases r)
  case RdErr
  with assms show ?thesis by (auto simp: process_tty_def)
next
  case (RdBytes buf)
  let ?w = "w\<lparr>trace := trace w @ [Read (fd_in c)]\<rparr>"
  show ?thesis
  proof (cases "buf = []")
    case True
    with RdBytes assms show ?thesis by (auto simp: process_tty_def)
  next
    case False
    show ?thesis
    proof (cases "scan_loop buf 0 c ?w")
      case (Inl f)
      with RdBytes False assms show ?thesis by (simp add: process_tty_def)
    next
      case (Inr x)
      obtain r1 c1 w1 where x: "x = (r1, c1, w1)" by (cases x) auto
      from scan_loop_trace Inr x obtain tr1 where t1: "trace w1 = trace ?w @ tr1" by blast
      show ?thesis
      proof (cases r1)
        case (Some rc1)
        with RdBytes False assms Inr x have "w' = w1" by (simp add: process_tty_def)
        with t1 show ?thesis by simp
      next
        case None
        obtain rc2 w2 where
          wr: "write_buf_to_fd (console_sd c1) buf (nat (int (length buf) - esc_str_pos c1)) w1 = (rc2, w2)"
          by (cases "write_buf_to_fd (console_sd c1) buf (nat (int (length buf) - esc_str_pos c1)) w1")
        from write_buf_to_fd_trace [OF wr] obtain tr2 where t2: "trace w2 = trace w1 @ tr2" by blast
        from RdBytes False assms Inr x None wr have "w' = w2"
          by (auto simp: process_tty_def Let_def split: if_splits)
        with t1 t2 show ?thesis by simp
      qed
    qed
  qed
qed

lemma process_console_trace:
  assumes "process_console r c w = (rc, w')"
  shows "\<exists>tr. trace w' = trace w @ Read (console_sd c) # tr"
proof (cases r)
  case RdErr
  with assms show ?thesis by (auto simp: process_console_def)
next
  case (RdBytes buf)
  obtain rc2 w2 where
    wr: "write_buf_to_fd (fd_out c) buf (length buf) (w\<lparr>trace := trace w @ [Read (console_sd c)]\<rparr>) = (rc2, w2)"
    by (cases "write_buf_to_fd (fd_out c) buf (length buf) (w\<lparr>trace := trace w @ [Read (console_sd c)]\<rparr>)")
  from write_buf_to_fd_trace [OF wr] obtain tr2 where
    "trace w2 = trace w @ Read (console_sd c) # tr2" by auto
  with RdBytes assms wr show ?thesis
    by (auto simp: process_console_def Let_def split: if_splits)
qed

text \<open>
  C5. A wait cycle in which both descriptors are ready: the first system call of the
  cycle is the read on the terminal input by \<^verbatim>\<open>process_tty\<close>. If \<^verbatim>\<open>process_tty\<close>
  returns \<^verbatim>\<open>PROCESS_EXIT\<close> or \<^verbatim>\<open>PROCESS_ERR\<close> the loop is left with that status in the
  very world \<^verbatim>\<open>process_tty\<close> produced: \<^verbatim>\<open>process_console\<close> has made no system call. If
  it returns \<^verbatim>\<open>PROCESS_OK\<close>, \<^verbatim>\<open>process_console\<close> runs in the world \<^verbatim>\<open>process_tty\<close>
  left, its read on the service socket coming after everything \<^verbatim>\<open>process_tty\<close> did.
\<close>

theorem C5_terminal_input_is_processed_first:
  assumes "0 \<le> poll_rc ev" and "revents0 ev" and "revents1 ev"
    and "process_tty (tty_rd ev) client w = Inr (prc1, client1, w1)"
  shows "(\<exists>tr. trace w1 = trace w @ Read (fd_in client) # tr)
    \<and> (prc1 \<noteq> PROCESS_OK \<longrightarrow>
         main_loop (ev # evs) prc client w =
           Broke (if prc1 = PROCESS_ERR then - 1 else 0) prc1 client1 w1)
    \<and> (prc1 = PROCESS_OK \<longrightarrow>
         (\<exists>prc2 w2 tr. process_console (sock_rd ev) client1 w1 = (prc2, w2) \<and>
            trace w2 = trace w1 @ Read (console_sd client1) # tr \<and>
            main_loop (ev # evs) prc client w =
              (if prc2 \<noteq> PROCESS_OK
               then Broke (if prc2 = PROCESS_ERR then - 1 else 0) prc2 client1 w2
               else main_loop evs PROCESS_OK client1 w2)))"
proof -
  have a: "\<exists>tr. trace w1 = trace w @ Read (fd_in client) # tr"
    using process_tty_trace [OF assms(4)] .
  have b: "prc1 \<noteq> PROCESS_OK \<longrightarrow>
         main_loop (ev # evs) prc client w =
           Broke (if prc1 = PROCESS_ERR then - 1 else 0) prc1 client1 w1"
    using assms by simp
  have c: "prc1 = PROCESS_OK \<longrightarrow>
         (\<exists>prc2 w2 tr. process_console (sock_rd ev) client1 w1 = (prc2, w2) \<and>
            trace w2 = trace w1 @ Read (console_sd client1) # tr \<and>
            main_loop (ev # evs) prc client w =
              (if prc2 \<noteq> PROCESS_OK
               then Broke (if prc2 = PROCESS_ERR then - 1 else 0) prc2 client1 w2
               else main_loop evs PROCESS_OK client1 w2))"
  proof
    assume ok: "prc1 = PROCESS_OK"
    obtain prc2 w2 where k: "process_console (sock_rd ev) client1 w1 = (prc2, w2)"
      by (cases "process_console (sock_rd ev) client1 w1")
    from process_console_trace [OF k] obtain tr where
      t: "trace w2 = trace w1 @ Read (console_sd client1) # tr" by blast
    from assms ok k have "main_loop (ev # evs) prc client w =
              (if prc2 \<noteq> PROCESS_OK
               then Broke (if prc2 = PROCESS_ERR then - 1 else 0) prc2 client1 w2
               else main_loop evs PROCESS_OK client1 w2)" by simp
    with k t show "\<exists>prc2 w2 tr. process_console (sock_rd ev) client1 w1 = (prc2, w2) \<and>
            trace w2 = trace w1 @ Read (console_sd client1) # tr \<and>
            main_loop (ev # evs) prc client w =
              (if prc2 \<noteq> PROCESS_OK
               then Broke (if prc2 = PROCESS_ERR then - 1 else 0) prc2 client1 w2
               else main_loop evs PROCESS_OK client1 w2)" by blast
  qed
  from a b c show ?thesis by blast
qed

theorem C5_witness:
  "main_loop [both_ready (RdBytes []) (RdBytes [0x41])] PROCESS_OK session0 quiet_world =
     Broke 0 PROCESS_EXIT session0 (quiet_world\<lparr>trace := [Read 0]\<rparr>)"
  using C5_terminal_input_is_processed_first
    [of "both_ready (RdBytes []) (RdBytes [0x41])" session0 quiet_world PROCESS_EXIT session0
        "quiet_world\<lparr>trace := [Read 0]\<rparr>" "[]" PROCESS_OK]
  by (simp add: run_defs both_ready_def)

text \<open>
  C6. Claim: every failing read or write ends the loop with \<^verbatim>\<open>PROCESS_ERR\<close>, the flush
  before a completed detach match and the flush of a false start included. What the code
  does: the return value of \<^verbatim>\<open>write_buf_to_fd\<close> is checked only for the write after the
  loop. When the flush of \<^verbatim>\<open>a b c\<close> before the match in \<^verbatim>\<open>a b c \r ~ .\<close> fails,
  \<^verbatim>\<open>process_tty\<close> returns \<^verbatim>\<open>PROCESS_EXIT\<close> and \<^verbatim>\<open>main\<close> exits with \<^verbatim>\<open>EXIT_SUCCESS\<close>;
  when the flush of the withheld \<^verbatim>\<open>~\<close> fails on the false start \<^verbatim>\<open>\r ~\<close> | \<^verbatim>\<open>x\<close>, the
  call returns \<^verbatim>\<open>PROCESS_OK\<close>, the loop goes on and the \<^verbatim>\<open>~\<close> is lost. The checked write
  does give \<^verbatim>\<open>PROCESS_ERR\<close>.
\<close>

theorem C6_flush_failures_are_ignored:
  "process_tty (RdBytes [0x61, 0x62, 0x63, 0x0D, 0x7E, 0x2E]) session0
       (quiet_world\<lparr>wr_script := [WrFail 0]\<rparr>) =
     Inr (PROCESS_EXIT, session0\<lparr>esc_str_pos := 2, newline := True\<rparr>,
          quiet_world\<lparr>trace := [Read 0, Write 3 []]\<rparr>)
   \<and> main (pipe_env [tty_ready [0x61, 0x62, 0x63, 0x0D, 0x7E, 0x2E]])
       (quiet_world\<lparr>wr_script := [WrFail 0]\<rparr>) =
     Exit EXIT_SUCCESS (quiet_world\<lparr>trace := [Read 0, Write 3 [], Close 3]\<rparr>)
   \<and> main_loop [tty_ready [0x0D, 0x7E], tty_ready [0x78]] PROCESS_OK session0
       (quiet_world\<lparr>wr_script := [WrOk, WrFail 0]\<rparr>) =
     Waiting session0
       (quiet_world\<lparr>trace := [Read 0, Write 3 [0x0D], Read 0, Write 3 [], Write 3 [0x78]]\<rparr>)
   \<and> process_tty (RdBytes [0x61]) session0 (quiet_world\<lparr>wr_script := [WrFail 0]\<rparr>) =
     Inr (PROCESS_ERR, session0, quiet_world\<lparr>trace := [Read 0, Write 3 []]\<rparr>)"
  by (simp add: run_defs main_defs)

lemma main_loop_end:
  "main_loop evs PROCESS_OK c w = Broke rc prc c' w' \<Longrightarrow>
   (prc = PROCESS_EXIT \<and> rc = 0) \<or> (prc = PROCESS_ERR \<and> rc = - 1) \<or>
   (prc = PROCESS_OK \<and> rc < 0 \<and> last (trace w') = Warn ''Poll failure'')"
proof (induction evs arbitrary: c w)
  case Nil
  then show ?case by simp
next
  case (Cons ev evs)
  show ?case
  proof (cases "poll_rc ev < 0")
    case True
    with Cons.prems show ?thesis by auto
  next
    case False
    show ?thesis
    proof (cases "if revents0 ev then process_tty (tty_rd ev) c w else Inr (PROCESS_OK, c, w)")
      case (Inl f)
      with Cons.prems False show ?thesis by simp
    next
      case (Inr x)
      obtain prc1 c1 w1 where x: "x = (prc1, c1, w1)" by (cases x) auto
      obtain prc2 w2 where
        k: "(if prc1 = PROCESS_OK \<and> revents1 ev then process_console (sock_rd ev) c1 w1
             else (prc1, w1)) = (prc2, w2)"
        by (cases "if prc1 = PROCESS_OK \<and> revents1 ev then process_console (sock_rd ev) c1 w1
             else (prc1, w1)")
      show ?thesis
      proof (cases "prc2 = PROCESS_OK")
        case True
        with Cons.prems False Inr x k
        have "main_loop evs PROCESS_OK c1 w2 = Broke rc prc c' w'" by simp
        from Cons.IH [OF this] show ?thesis .
      next
        case ne: False
        with Cons.prems False Inr x k
        have "rc = (if prc2 = PROCESS_ERR then - 1 else 0) \<and> prc = prc2" by auto
        with ne show ?thesis by (cases prc2) simp_all
      qed
    qed
  qed
qed


text \<open>
  C7, as stated: a zero-byte read is a graceful ending, and the failure exit status is
  produced exactly when the loop terminates with \<^verbatim>\<open>PROCESS_ERR\<close>. It fails when
  \<^verbatim>\<open>poll\<close> fails: the loop is left with \<^verbatim>\<open>prc\<close> still \<^verbatim>\<open>PROCESS_OK\<close> and \<^verbatim>\<open>rc\<close>
  negative, and \<^verbatim>\<open>main\<close> exits with \<^verbatim>\<open>EXIT_FAILURE\<close>.
\<close>

theorem C7_poll_failure_counterexample:
  "main_loop [poll_fails] PROCESS_OK session0 quiet_world =
     Broke (- 1) PROCESS_OK session0 (quiet_world\<lparr>trace := [Warn ''Poll failure'']\<rparr>)
   \<and> main (pipe_env [poll_fails]) quiet_world =
     Exit EXIT_FAILURE (quiet_world\<lparr>trace := [Warn ''Poll failure'', Close 3]\<rparr>)"
  by (simp add: run_defs main_defs)


text \<open>
  C7, amended. A zero-byte read on the terminal input makes \<^verbatim>\<open>process_tty\<close> return
  \<^verbatim>\<open>PROCESS_EXIT\<close>; a zero-byte read on the service socket makes \<^verbatim>\<open>process_console\<close>
  print "Connection closed" and return \<^verbatim>\<open>PROCESS_EXIT\<close>; either leaves the loop with
  \<^verbatim>\<open>PROCESS_EXIT\<close>. Once the session is set up, whenever the loop is left, \<^verbatim>\<open>main\<close>
  exits with \<^verbatim>\<open>EXIT_SUCCESS\<close> if the loop was left with \<^verbatim>\<open>PROCESS_EXIT\<close> and with
  \<^verbatim>\<open>EXIT_FAILURE\<close> otherwise, and otherwise means: the loop was left with
  \<^verbatim>\<open>PROCESS_ERR\<close>, or \<^verbatim>\<open>poll\<close> failed (\<^verbatim>\<open>prc\<close> still \<^verbatim>\<open>PROCESS_OK\<close>, the warning
  "Poll failure" being the last thing done).
\<close>

theorem C7_zero_byte_reads_end_gracefully:
  assumes "client_init e zero_client w0 = (0, c1, w1)"
    and "client_tty_init e c1 w1 = (0, c2, w2)"
    and "main_loop (events e) PROCESS_OK c2 w2 = Broke rc prc c3 w3"
  shows "process_tty (RdBytes []) c w =
           Inr (PROCESS_EXIT, c, w\<lparr>trace := trace w @ [Read (fd_in c)]\<rparr>)
    \<and> process_console (RdBytes []) c w =
           (PROCESS_EXIT,
            w\<lparr>trace := trace w @ [Read (console_sd c),
                                    Stderr (''Connection closed'' @ [CHR 0x0A])]\<rparr>)
    \<and> (0 \<le> poll_rc ev \<and> revents0 ev \<and> tty_rd ev = RdBytes [] \<longrightarrow>
         main_loop (ev # evs) prc0 c w =
           Broke 0 PROCESS_EXIT c (w\<lparr>trace := trace w @ [Read (fd_in c)]\<rparr>))
    \<and> (0 \<le> poll_rc ev \<and> \<not> revents0 ev \<and> revents1 ev \<and> sock_rd ev = RdBytes [] \<longrightarrow>
         main_loop (ev # evs) PROCESS_OK c w =
           Broke 0 PROCESS_EXIT c
             (w\<lparr>trace := trace w @ [Read (console_sd c),
                                      Stderr (''Connection closed'' @ [CHR 0x0A])]\<rparr>))
    \<and> main e w0 =
         Exit (if prc = PROCESS_EXIT then EXIT_SUCCESS else EXIT_FAILURE) (client_fini e c3 w3)
    \<and> EXIT_SUCCESS \<noteq> EXIT_FAILURE
    \<and> (prc = PROCESS_EXIT \<and> rc = 0 \<or> prc = PROCESS_ERR \<and> rc = - 1 \<or>
        prc = PROCESS_OK \<and> rc < 0 \<and> last (trace w3) = Warn ''Poll failure'')"
proof -
  have a: "process_tty (RdBytes []) c w =
           Inr (PROCESS_EXIT, c, w\<lparr>trace := trace w @ [Read (fd_in c)]\<rparr>)"
    by (simp add: process_tty_def)
  have b: "process_console (RdBytes []) c w =
           (PROCESS_EXIT,
            w\<lparr>trace := trace w @ [Read (console_sd c),
                                    Stderr (''Connection closed'' @ [CHR 0x0A])]\<rparr>)"
    by (simp add: process_console_def)
  have c: "0 \<le> poll_rc ev \<and> revents0 ev \<and> tty_rd ev = RdBytes [] \<longrightarrow>
         main_loop (ev # evs) prc0 c w =
           Broke 0 PROCESS_EXIT c (w\<lparr>trace := trace w @ [Read (fd_in c)]\<rparr>)"
    by (simp add: process_tty_def)
  have d: "0 \<le> poll_rc ev \<and> \<not> revents0 ev \<and> revents1 ev \<and> sock_rd ev = RdBytes [] \<longrightarrow>
         main_loop (ev # evs) PROCESS_OK c w =
           Broke 0 PROCESS_EXIT c
             (w\<lparr>trace := trace w @ [Read (console_sd c),
                                      Stderr (''Connection closed'' @ [CHR 0x0A])]\<rparr>)"
    by (simp add: process_console_def)
  note g = main_loop_end [OF assms(3)]
  have f: "main e w0 =
         Exit (if prc = PROCESS_EXIT then EXIT_SUCCESS else EXIT_FAILURE) (client_fini e c3 w3)"
    using assms g by (auto simp: main_def)
  have h: "EXIT_SUCCESS \<noteq> EXIT_FAILURE" by (simp add: EXIT_SUCCESS_def EXIT_FAILURE_def)
  from a b c d f h g show ?thesis by blast
qed

theorem C7_witness:
  "main (tty_env [sock_ready (RdBytes [])]) quiet_world =
     Exit EXIT_SUCCESS
       (client_fini (tty_env [sock_ready (RdBytes [])]) raw_session
          (quiet_world\<lparr>trace := [Tcsetattr 0 \<lparr>t_raw = True, t_other = 0\<rparr>, Read 3,
                                  Stderr (''Connection closed'' @ [CHR 0x0A])],
                       term_attrs := \<lparr>t_raw = True, t_other = 0\<rparr>\<rparr>))"
proof -
  have i: "client_init (tty_env [sock_ready (RdBytes [])]) zero_client quiet_world =
             (0, zero_client\<lparr>console_sd := 3\<rparr>, quiet_world)"
    by (simp add: main_defs)
  have t: "client_tty_init (tty_env [sock_ready (RdBytes [])]) (zero_client\<lparr>console_sd := 3\<rparr>)
             quiet_world =
             (0, raw_session,
              quiet_world\<lparr>trace := [Tcsetattr 0 \<lparr>t_raw = True, t_other = 0\<rparr>],
                           term_attrs := \<lparr>t_raw = True, t_other = 0\<rparr>\<rparr>)"
    by (simp add: main_defs run_defs raw_session_def)
  have l: "main_loop (events (tty_env [sock_ready (RdBytes [])])) PROCESS_OK raw_session
             (quiet_world\<lparr>trace := [Tcsetattr 0 \<lparr>t_raw = True, t_other = 0\<rparr>],
                          term_attrs := \<lparr>t_raw = True, t_other = 0\<rparr>\<rparr>) =
           Broke 0 PROCESS_EXIT raw_session
             (quiet_world\<lparr>trace := [Tcsetattr 0 \<lparr>t_raw = True, t_other = 0\<rparr>, Read 3,
                                     Stderr (''Connection closed'' @ [CHR 0x0A])],
                          term_attrs := \<lparr>t_raw = True, t_other = 0\<rparr>\<rparr>)"
    by (simp add: main_defs run_defs raw_session_def)
  from C7_zero_byte_reads_end_gracefully [OF i t l] show ?thesis
    by simp
qed

lemma client_init_ok:
  assumes "client_init e zero_client w0 = (0, c1, w1)"
  shows "w1 = w0 \<and> console_sd c1 = socket_ret e \<and> esc_str_pos c1 = 0 \<and> \<not> newline c1"
  using assms by (auto simp: client_init_def zero_client_def Let_def split: if_splits)

lemma client_tty_init_ok:
  assumes "client_tty_init e c1 w1 = (0, c2, w2)"
  shows "console_sd c2 = console_sd c1 \<and> esc_str_pos c2 = esc_str_pos c1 \<and>
         newline c2 = newline c1 \<and> fd_in c2 = STDIN_FILENO \<and> is_tty c2 = isatty_ret e \<and>
         (isatty_ret e \<longrightarrow> orig_termios c2 = term_attrs w1)"
  using assms
  by (auto simp: client_tty_init_def tcsetattr_def Let_def split: if_splits)

text \<open>
  C9. Once \<^verbatim>\<open>client_init\<close> and \<^verbatim>\<open>client_tty_init\<close> have succeeded, \<^verbatim>\<open>main\<close> either never
  leaves the loop (no event makes it end), or the loop is left (local end of file, remote
  close, detach, an I/O error or a poll failure) and \<^verbatim>\<open>main\<close> exits through
  \<^verbatim>\<open>client_fini\<close>: the last system calls are, when the input was a tty, a \<^verbatim>\<open>tcsetattr\<close>
  on the input with the attributes the terminal had at start-up, and then the \<^verbatim>\<open>close\<close>
  of the service socket; when that \<^verbatim>\<open>tcsetattr\<close> succeeds the terminal has its start-up
  attributes again. The scan never runs into undefined behaviour on the way.
\<close>

theorem C9_every_exit_path_runs_client_fini:
  assumes "client_init e zero_client w0 = (0, c1, w1)"
    and "client_tty_init e c1 w1 = (0, c2, w2)"
  shows "(\<exists>c3 w3. main_loop (events e) PROCESS_OK c2 w2 = Waiting c3 w3 \<and> main e w0 = Hangs w3)
    \<or> (\<exists>rc prc c3 w3 code.
          main_loop (events e) PROCESS_OK c2 w2 = Broke rc prc c3 w3 \<and>
          main e w0 = Exit code (client_fini e c3 w3) \<and>
          trace (client_fini e c3 w3) =
            trace w3 @ (if isatty_ret e then [Tcsetattr STDIN_FILENO (term_attrs w0)] else [])
                     @ [Close (socket_ret e)] \<and>
          (isatty_ret e \<and> tcsetattr_fini_ret e = 0 \<longrightarrow>
             term_attrs (client_fini e c3 w3) = term_attrs w0))"
proof -
  note i = client_init_ok [OF assms(1)]
  note t = client_tty_init_ok [OF assms(2)]
  from i t have sc: "scanning c2" by (auto intro: scanning.start)
  from main_loop_scanning [OF sc, of "events e" PROCESS_OK w2]
  show ?thesis
  proof
    assume "\<exists>c' w'. main_loop (events e) PROCESS_OK c2 w2 = Waiting c' w' \<and> scanning c' \<and>
              same_session c2 c'"
    then obtain c3 w3 where l: "main_loop (events e) PROCESS_OK c2 w2 = Waiting c3 w3" by blast
    with assms have "main e w0 = Hangs w3" by (simp add: main_def)
    with l show ?thesis by blast
  next
    assume "\<exists>rc prc' c' w'. main_loop (events e) PROCESS_OK c2 w2 = Broke rc prc' c' w' \<and>
              (scanning c' \<or> prc' = PROCESS_EXIT \<and> esc_str_pos c' = 2 \<and> newline c') \<and>
              same_session c2 c'"
    then obtain rc prc c3 w3 where
      l: "main_loop (events e) PROCESS_OK c2 w2 = Broke rc prc c3 w3"
      and s: "same_session c2 c3" by blast
    from assms l have m: "main e w0 =
        Exit (if rc \<noteq> 0 then EXIT_FAILURE else EXIT_SUCCESS) (client_fini e c3 w3)"
      by (simp add: main_def)
    from s i t have tr: "trace (client_fini e c3 w3) =
            trace w3 @ (if isatty_ret e then [Tcsetattr STDIN_FILENO (term_attrs w0)] else [])
                     @ [Close (socket_ret e)]"
      by (simp add: client_fini_def tcsetattr_def same_session_def)
    from s i t have ta: "isatty_ret e \<and> tcsetattr_fini_ret e = 0 \<longrightarrow>
             term_attrs (client_fini e c3 w3) = term_attrs w0"
      by (simp add: client_fini_def tcsetattr_def same_session_def)
    from l m tr ta show ?thesis by blast
  qed
qed

theorem C9_witness:
  "main (tty_env [tty_ready [0x0D], tty_ready [0x7E, 0x2E]]) quiet_world =
     Exit EXIT_SUCCESS
       \<lparr>trace = [Tcsetattr 0 \<lparr>t_raw = True, t_other = 0\<rparr>, Read 0, Write 3 [0x0D], Read 0,
                 Tcsetattr 0 \<lparr>t_raw = False, t_other = 0\<rparr>, Close 3],
        wr_script = [], term_attrs = \<lparr>t_raw = False, t_other = 0\<rparr>\<rparr>"
proof -
  have i: "client_init (tty_env [tty_ready [0x0D], tty_ready [0x7E, 0x2E]]) zero_client
             quiet_world =
             (0, zero_client\<lparr>console_sd := 3\<rparr>, quiet_world)"
    by (simp add: main_defs)
  have t: "client_tty_init (tty_env [tty_ready [0x0D], tty_ready [0x7E, 0x2E]])
             (zero_client\<lparr>console_sd := 3\<rparr>) quiet_world =
             (0, raw_session,
              quiet_world\<lparr>trace := [Tcsetattr 0 \<lparr>t_raw = True, t_other = 0\<rparr>],
                           term_attrs := \<lparr>t_raw = True, t_other = 0\<rparr>\<rparr>)"
    by (simp add: main_defs run_defs raw_session_def)
  from C9_every_exit_path_runs_client_fini [OF i t] show ?thesis
    by (simp add: main_defs run_defs raw_session_def)
qed

end
